theory Spec2Isabelle
  imports Complex_Main
begin

section \<open>Tensors\<close>

text \<open>
  The program of \<^verbatim>\<open>DAG_model.py\<close> computes on dense two-dimensional float tensors.
  A tensor is modelled by the list of its rows, and a finite float by the real number it
  stands for: in the definitions of the first sections rounding and overflow are left
  out, and a later section gives the same functions in float32 arithmetic for the
  properties that depend on them. Where the source calls an
  operation that can leave the finite numbers (logarithm, division, power, log-gamma, the
  mean of an empty axis) the result is a value of the type \<open>float\<close> below, which adds
  the two infinities and NaN of IEEE arithmetic to the reals.
\<close>

type_synonym tensor = "real list list"

datatype float = Fin real | PInf | NInf | NaN

fun f_neg :: "float \<Rightarrow> float" where
  "f_neg (Fin a) = Fin (- a)"
| "f_neg PInf = NInf"
| "f_neg NInf = PInf"
| "f_neg NaN = NaN"

fun f_add :: "float \<Rightarrow> float \<Rightarrow> float" where
  "f_add (Fin a) (Fin b) = Fin (a + b)"
| "f_add NaN _ = NaN"
| "f_add _ NaN = NaN"
| "f_add PInf NInf = NaN"
| "f_add NInf PInf = NaN"
| "f_add PInf _ = PInf"
| "f_add _ PInf = PInf"
| "f_add NInf _ = NInf"
| "f_add _ NInf = NInf"

definition f_sub :: "float \<Rightarrow> float \<Rightarrow> float" where
  "f_sub a b = f_add a (f_neg b)"

definition signed_inf :: "real \<Rightarrow> float" where
  \<comment> \<open>an infinity times a finite factor \<open>a\<close>\<close>
  "signed_inf a = (if a = 0 then NaN else if 0 < a then PInf else NInf)"

fun f_mul :: "float \<Rightarrow> float \<Rightarrow> float" where
  "f_mul (Fin a) (Fin b) = Fin (a * b)"
| "f_mul NaN _ = NaN"
| "f_mul _ NaN = NaN"
| "f_mul PInf (Fin b) = signed_inf b"
| "f_mul (Fin a) PInf = signed_inf a"
| "f_mul NInf (Fin b) = signed_inf (- b)"
| "f_mul (Fin a) NInf = signed_inf (- a)"
| "f_mul PInf PInf = PInf"
| "f_mul NInf NInf = PInf"
| "f_mul PInf NInf = NInf"
| "f_mul NInf PInf = NInf"

definition tf_div :: "real \<Rightarrow> real \<Rightarrow> float" where
  \<comment> \<open>\<^verbatim>\<open>a / b\<close> for finite \<open>a\<close> and \<open>b\<close>; a zero divisor is taken as \<open>+0\<close>\<close>
  "tf_div a b = (if b \<noteq> 0 then Fin (a / b) else signed_inf a)"

fun tf_log :: "float \<Rightarrow> float" where
  \<comment> \<open>\<^verbatim>\<open>tf.math.log\<close> and \<^verbatim>\<open>tf.log\<close>\<close>
  "tf_log (Fin x) = (if 0 < x then Fin (ln x) else if x = 0 then NInf else NaN)"
| "tf_log PInf = PInf"
| "tf_log NInf = NaN"
| "tf_log NaN = NaN"

definition is_integer :: "real \<Rightarrow> bool" where
  "is_integer x = (of_int \<lfloor>x\<rfloor> = x)"

fun tf_pow :: "float \<Rightarrow> real \<Rightarrow> float" where
  \<comment> \<open>\<^verbatim>\<open>tf.math.pow(x, y)\<close> and \<^verbatim>\<open>tf.pow(x, y)\<close> for a finite exponent \<open>y\<close>, with the
      special cases of IEEE \<open>pow\<close>: any base to the power 0 is 1\<close>
  "tf_pow (Fin x) y =
     (if y = 0 then Fin 1
      else if 0 < x then Fin (x powr y)
      else if x = 0 then (if 0 < y then Fin 0 else PInf)
      else if is_integer y then Fin (x powi \<lfloor>y\<rfloor>) else NaN)"
| "tf_pow PInf y = (if y = 0 then Fin 1 else if 0 < y then PInf else Fin 0)"
| "tf_pow NInf y =
     (if y = 0 then Fin 1
      else if y < 0 then Fin 0
      else if is_integer y \<and> odd \<lfloor>y\<rfloor> then NInf else PInf)"
| "tf_pow NaN y = (if y = 0 then Fin 1 else NaN)"

definition log_gamma :: "real \<Rightarrow> real" where
  \<comment> \<open>The function \<open>log |Gamma|\<close> of TensorFlow, by the product formula of Gauss:
      \<open>Gamma x\<close> is the limit of \<open>n! * n^x / (x * (x + 1) * ... * (x + n))\<close>. No property
      below depends on more than its being a real number away from the poles.\<close>
  "log_gamma x =
     lim (\<lambda>n. ln (fact n) + x * ln (real n) - (\<Sum>k\<le>n. ln \<bar>x + real k\<bar>))"

definition tf_lgamma :: "real \<Rightarrow> float" where
  \<comment> \<open>\<^verbatim>\<open>tf.math.lgamma\<close> and \<^verbatim>\<open>tf.lgamma\<close> at a finite argument: infinite exactly at
      the poles 0, -1, -2, ...\<close>
  "tf_lgamma x = (if x \<le> 0 \<and> is_integer x then PInf else Fin (log_gamma x))"

definition tf_where :: "bool \<Rightarrow> 'a \<Rightarrow> 'a \<Rightarrow> 'a" where
  \<comment> \<open>one position of \<^verbatim>\<open>tf.where(cond, a, b)\<close>: both operands are computed, one is
      selected\<close>
  "tf_where c a b = (if c then a else b)"

definition shape0 :: "'a list list \<Rightarrow> nat" where
  \<comment> \<open>\<^verbatim>\<open>K.shape(A)[0]\<close>\<close>
  "shape0 A = length A"

definition shape1 :: "'a list list \<Rightarrow> nat" where
  \<comment> \<open>\<^verbatim>\<open>K.shape(A)[1]\<close>; a tensor without rows has no columns in this model\<close>
  "shape1 A = (case A of [] \<Rightarrow> 0 | r # _ \<Rightarrow> length r)"

definition is_tensor :: "nat \<Rightarrow> nat \<Rightarrow> 'a list list \<Rightarrow> bool" where
  \<comment> \<open>the static shape of a tensor: \<open>r\<close> rows of \<open>c\<close> entries each\<close>
  "is_tensor r c A = (length A = r \<and> list_all (\<lambda>row. length row = c) A)"

definition tabulate2 :: "nat \<Rightarrow> nat \<Rightarrow> (nat \<Rightarrow> nat \<Rightarrow> 'a) \<Rightarrow> 'a list list" where
  \<comment> \<open>the tensor of shape \<open>(r, c)\<close> with entry \<open>f i j\<close> at position \<open>(i, j)\<close>\<close>
  "tabulate2 r c f = map (\<lambda>i. map (\<lambda>j. f i j) [0..<c]) [0..<r]"

definition tf_multiply_scalar :: "real \<Rightarrow> tensor \<Rightarrow> tensor" where
  \<comment> \<open>\<^verbatim>\<open>tf.multiply(c, X)\<close> and \<^verbatim>\<open>c * X\<close> with a scalar \<open>c\<close>: broadcast over \<open>X\<close>\<close>
  "tf_multiply_scalar c X = map (map (\<lambda>x. c * x)) X"

definition f_div_count :: "float \<Rightarrow> nat \<Rightarrow> float" where
  \<comment> \<open>a sum divided by the number of its terms; 0/0 is NaN\<close>
  "f_div_count s k =
     (if k = 0 then NaN else case s of Fin a \<Rightarrow> Fin (a / real k) | _ \<Rightarrow> s)"

definition K_mean_last :: "float list list \<Rightarrow> float list" where
  \<comment> \<open>\<^verbatim>\<open>K.mean(X, axis=-1)\<close>: the mean of every row\<close>
  "K_mean_last X = map (\<lambda>row. f_div_count (foldl f_add (Fin 0) row) (length row)) X"

definition finite_tensor :: "tensor \<Rightarrow> float list list" where
  \<comment> \<open>a tensor of finite floats\<close>
  "finite_tensor X = map (map Fin) X"

definition add_loss :: "'l \<Rightarrow> 'l list \<Rightarrow> 'l list" where
  \<comment> \<open>\<^verbatim>\<open>Layer.add_loss\<close>: the layer keeps the list of the loss terms registered on it\<close>
  "add_loss l losses = losses @ [l]"

subsection \<open>Matrix operations\<close>

definition tf_zeros :: "nat \<Rightarrow> nat \<Rightarrow> tensor" where
  \<comment> \<open>the \<^verbatim>\<open>'zeros'\<close> initializer for a weight of shape \<open>(r, c)\<close>\<close>
  "tf_zeros r c = tabulate2 r c (\<lambda>i j. 0)"

definition tf_eye :: "nat \<Rightarrow> tensor" where
  \<comment> \<open>\<^verbatim>\<open>tf.eye(n)\<close>\<close>
  "tf_eye n = tabulate2 n n (\<lambda>i j. if i = j then 1 else 0)"

definition K_transpose :: "tensor \<Rightarrow> tensor" where
  \<comment> \<open>\<^verbatim>\<open>K.transpose(A)\<close>\<close>
  "K_transpose A = tabulate2 (shape1 A) (shape0 A) (\<lambda>i j. A ! j ! i)"

definition tensor_add :: "tensor \<Rightarrow> tensor \<Rightarrow> tensor" where
  \<comment> \<open>\<^verbatim>\<open>A + B\<close> on tensors of one shape (that of \<open>A\<close>)\<close>
  "tensor_add A B = tabulate2 (shape0 A) (shape1 A) (\<lambda>i j. A ! i ! j + B ! i ! j)"

definition tensor_sub :: "tensor \<Rightarrow> tensor \<Rightarrow> tensor" where
  \<comment> \<open>\<^verbatim>\<open>A - B\<close> on tensors of one shape (that of \<open>A\<close>)\<close>
  "tensor_sub A B = tabulate2 (shape0 A) (shape1 A) (\<lambda>i j. A ! i ! j - B ! i ! j)"

definition tf_multiply :: "tensor \<Rightarrow> tensor \<Rightarrow> tensor" where
  \<comment> \<open>\<^verbatim>\<open>tf.multiply(A, B)\<close>: the elementwise product\<close>
  "tf_multiply A B = tabulate2 (shape0 A) (shape1 A) (\<lambda>i j. A ! i ! j * B ! i ! j)"

definition tf_matmul :: "tensor \<Rightarrow> tensor \<Rightarrow> tensor" where
  \<comment> \<open>\<^verbatim>\<open>tf.matmul(A, B)\<close>; TensorFlow rejects operands whose inner dimensions differ,
      so the sum runs over the rows of \<open>B\<close>\<close>
  "tf_matmul A B =
     tabulate2 (shape0 A) (shape1 B)
       (\<lambda>i j. sum_list (map (\<lambda>k. A ! i ! k * B ! k ! j) [0..<shape0 B]))"

definition tf_linalg_trace :: "tensor \<Rightarrow> real" where
  \<comment> \<open>\<^verbatim>\<open>tf.linalg.trace(x)\<close>\<close>
  "tf_linalg_trace x = sum_list (map (\<lambda>i. x ! i ! i) [0..<shape0 x])"


section \<open>Likelihoods\<close>

text \<open>
  Every operation of the two likelihood functions is elementwise on tensors of one
  shape, so each is modelled by its value at one position, where \<open>y\<close>, \<open>mu\<close>, \<open>r\<close>,
  \<open>pi\<close> and \<open>eps\<close> are finite numbers.
\<close>

definition NB_loglikelihood ::
  "bool \<Rightarrow> real \<Rightarrow> real \<times> real \<Rightarrow> real \<Rightarrow> float" where
  \<comment> \<open>\<^verbatim>\<open>NB_loglikelihood(y, params, eps)\<close> at one position, \<open>params = [mu, r]\<close>; the
      global \<open>tf2_flag\<close> is a parameter. Both branches compute the same expression under
      the two names of the TensorFlow functions.\<close>
  "NB_loglikelihood tf2_flag y params eps =
     (case params of (mu, r) \<Rightarrow>
        let l1 = (if tf2_flag
                  then f_sub (f_sub (tf_lgamma (y + r + eps)) (tf_lgamma (r + eps)))
                         (tf_lgamma (y + 1))
                  else f_sub (f_sub (tf_lgamma (y + r + eps)) (tf_lgamma (r + eps)))
                         (tf_lgamma (y + 1)));
            l2 = (if tf2_flag
                  then f_add (f_mul (Fin y) (tf_log (tf_div (mu + eps) (r + mu + eps))))
                         (f_mul (Fin r) (tf_log (tf_div (r + eps) (r + mu + eps))))
                  else f_add (f_mul (Fin y) (tf_log (tf_div (mu + eps) (r + mu + eps))))
                         (f_mul (Fin r) (tf_log (tf_div (r + eps) (r + mu + eps)))));
            log_likelihood = f_add l1 l2
        in log_likelihood)"

definition ZINB_loglikelihood ::
  "bool \<Rightarrow> real \<Rightarrow> real \<times> real \<times> real \<Rightarrow> real \<Rightarrow> float" where
  \<comment> \<open>\<^verbatim>\<open>ZINB_loglikelihood(y, params, eps)\<close> at one position, \<open>params = [mu, r, pi]\<close>
      (\<open>pi'\<close> here, \<open>pi\<close> being the circle constant in HOL). The branch for TensorFlow 1
      has no \<open>eps\<close> in its two logarithms.\<close>
  "ZINB_loglikelihood tf2_flag y params eps =
     (case params of (mu, r, pi') \<Rightarrow>
        let nb_log_likelihood = NB_loglikelihood tf2_flag y (mu, r) eps;
            case_zero =
              (if tf2_flag
               then tf_log (f_add (Fin (eps + pi'))
                      (f_mul (Fin (1 - pi')) (tf_pow (tf_div r (r + mu + eps)) r)))
               else tf_log (f_add (Fin pi')
                      (f_mul (Fin (1 - pi')) (tf_pow (tf_div r (r + mu)) r))));
            case_nonzero =
              (if tf2_flag
               then f_add (tf_log (Fin (1 - pi' + eps))) nb_log_likelihood
               else f_add (tf_log (Fin (1 - pi'))) nb_log_likelihood);
            zinb_log_likelihood = tf_where (y < 1 / 10 ^ 8) case_zero case_nonzero
        in zinb_log_likelihood)"

definition ZINB_loglikelihood_tensor ::
  "bool \<Rightarrow> tensor \<Rightarrow> tensor \<times> tensor \<times> tensor \<Rightarrow> real
     \<Rightarrow> float list list" where
  \<comment> \<open>the function on tensors of one shape (that of \<open>y\<close>), as the reconstruction
      layer calls it\<close>
  "ZINB_loglikelihood_tensor tf2_flag y params eps =
     (case params of (mu, r, pi') \<Rightarrow>
        map (\<lambda>i. map (\<lambda>j. ZINB_loglikelihood tf2_flag (y ! i ! j)
                             (mu ! i ! j, r ! i ! j, pi' ! i ! j) eps)
                   [0..<length (y ! i)])
            [0..<length y])"


section \<open>KL divergence layer\<close>

definition gaussian_kl_elem :: "real \<Rightarrow> real \<Rightarrow> real \<Rightarrow> real \<Rightarrow> real" where
  \<comment> \<open>one position of the expression in \<^verbatim>\<open>gaussian_kl\<close>; every operation there is
      elementwise\<close>
  "gaussian_kl_elem mu_1 logvar_1 mu_2 logvar_2 =
     - 0.5 * (1 - logvar_2 + logvar_1)
     + 0.5 * exp (- logvar_2) * (exp logvar_1 + (mu_1 - mu_2)\<^sup>2)"

definition gaussian_kl :: "tensor \<times> tensor \<Rightarrow> tensor \<times> tensor \<Rightarrow> tensor" where
  \<comment> \<open>\<^verbatim>\<open>gaussian_kl(self, g1, g2)\<close> on four tensors of one shape (that of \<open>mu_1\<close>)\<close>
  "gaussian_kl g1 g2 =
     (case g1 of (mu_1, logvar_1) \<Rightarrow> case g2 of (mu_2, logvar_2) \<Rightarrow>
        map (\<lambda>i. map (\<lambda>j. gaussian_kl_elem (mu_1 ! i ! j) (logvar_1 ! i ! j)
                                            (mu_2 ! i ! j) (logvar_2 ! i ! j))
                   [0..<length (mu_1 ! i)])
            [0..<length mu_1])"

definition create_reference :: "real \<Rightarrow> real \<Rightarrow> tensor \<Rightarrow> tensor \<times> tensor" where
  \<comment> \<open>\<^verbatim>\<open>create_reference\<close>: the layer's \<open>mean\<close> and \<open>log_var\<close> times a tensor of ones
      of the shape of \<^verbatim>\<open>inputs[0]\<close>\<close>
  "create_reference mean log_var inputs0 =
     (let ones = map (map (\<lambda>_. 1)) inputs0
      in (tf_multiply_scalar mean ones, tf_multiply_scalar log_var ones))"

definition scale_loss :: "real \<Rightarrow> float list \<Rightarrow> float list" where
  \<comment> \<open>a finite scalar times a vector\<close>
  "scale_loss c v = map (\<lambda>x. f_mul (Fin c) x) v"

definition KLDivergenceLayer_call ::
  "real \<Rightarrow> real \<Rightarrow> real \<Rightarrow> tensor \<times> tensor \<times> tensor \<Rightarrow> float list list
     \<Rightarrow> tensor \<times> float list list" where
  \<comment> \<open>\<^verbatim>\<open>KLDivergenceLayer.call\<close>; \<open>inputs = [z_mean, z_log_var, z]\<close>. The result is the
      returned tensor and the layer's list of losses after the call.\<close>
  "KLDivergenceLayer_call beta mean log_var inputs losses =
     (case inputs of (z_mean, z_log_var, z) \<Rightarrow>
        let reference = create_reference mean log_var z_mean;
            loss = scale_loss beta
                     (K_mean_last (finite_tensor (gaussian_kl (z_mean, z_log_var) reference)))
        in (z, add_loss loss losses))"


section \<open>Reconstruction loss layer\<close>

definition ReconstructionLossLayer_call ::
  "(tensor \<Rightarrow> 'p \<Rightarrow> real \<Rightarrow> float list list) \<Rightarrow> real \<Rightarrow> tensor \<times> 'p \<Rightarrow> float list list
     \<Rightarrow> 'p \<times> float list list" where
  \<comment> \<open>\<^verbatim>\<open>ReconstructionLossLayer.call\<close>; \<open>inputs = [y, params]\<close>, \<open>rl\<close> and \<open>eps\<close> are
      the layer's attributes\<close>
  "ReconstructionLossLayer_call rl eps inputs losses =
     (case inputs of (y, params) \<Rightarrow>
        let loss = map f_neg (K_mean_last (rl y params eps))
        in (params, add_loss loss losses))"


section \<open>Constraint loss layer\<close>

definition ConstraintLossLayer_call ::
  "('v \<Rightarrow> 'v \<Rightarrow> tensor \<Rightarrow> real \<Rightarrow> 'l) \<Rightarrow> real \<Rightarrow> 'v \<Rightarrow> 'v \<Rightarrow> tensor \<times> 'o \<Rightarrow> 'l list
     \<Rightarrow> 'o \<times> 'l list" where
  \<comment> \<open>\<^verbatim>\<open>ConstraintLossLayer.call\<close>; \<open>inputs = [A, layers]\<close>, \<open>cl\<close> and \<open>alpha\<close> are the
      layer's attributes, \<open>lambda_A\<close> and \<open>penalty_A\<close> its weights\<close>
  "ConstraintLossLayer_call cl alpha lambda_A penalty_A inputs losses =
     (case inputs of (A, layers) \<Rightarrow>
        let loss = cl lambda_A penalty_A A alpha
        in (layers, add_loss loss losses))"

section \<open>The KL loss in the words of the specification\<close>

definition KL_loss_as_specified :: "real \<Rightarrow> real \<Rightarrow> real \<Rightarrow> tensor \<times> tensor \<Rightarrow> real" where
  \<comment> \<open>The loss as the specification words it, for comparison with the layer: \<open>beta\<close>
      times the per-element term, summed over the latent dimensions of every batch row
      and averaged over the batch.\<close>
  "KL_loss_as_specified beta mean log_var post =
     (case post of (z_mean, z_log_var) \<Rightarrow>
        beta * (sum_list (map (\<lambda>i. sum_list (map (\<lambda>j.
                   gaussian_kl_elem (z_mean ! i ! j) (z_log_var ! i ! j) mean log_var)
                   [0..<length (z_mean ! i)])) [0..<length z_mean])
                / real (length z_mean)))"


section \<open>Layer weights and the training loop\<close>

text \<open>
  A Keras weight is an array with a name and a flag that says whether the optimizer may
  change it. The arrays of the constraint layer have shape \<open>(1)\<close>; an array is modelled
  by the list of its entries. A model is the list of its layers, a layer the list of
  its weights in the order of their creation.
\<close>

record weight =
  wname :: string
  wvalue :: "real list"
  wtrainable :: bool

datatype initializer = Zeros | Ones

definition add_weight :: "string \<Rightarrow> nat \<Rightarrow> initializer \<Rightarrow> bool \<Rightarrow> weight" where
  \<comment> \<open>\<^verbatim>\<open>Layer.add_weight(name, shape, initializer, trainable)\<close> for a one-dimensional shape\<close>
  "add_weight nm shp ini tr =
     \<lparr>wname = nm, wvalue = replicate shp (case ini of Zeros \<Rightarrow> 0 | Ones \<Rightarrow> 1),
      wtrainable = tr\<rparr>"

definition ConstraintLossLayer_build :: "weight list" where
  \<comment> \<open>\<^verbatim>\<open>ConstraintLossLayer.build\<close>: \<open>lambda_A\<close>, then \<open>penalty_A\<close>\<close>
  "ConstraintLossLayer_build =
     [add_weight ''lambda_A'' 1 Zeros False, add_weight ''penalty_A'' 1 Ones False]"

definition get_weights :: "weight list \<Rightarrow> real list list" where
  \<comment> \<open>\<^verbatim>\<open>Layer.get_weights\<close>: the arrays of the layer's weights. Keras lists trainable
      weights first; the constraint layer has none, so this is the order of creation.\<close>
  "get_weights ws = map wvalue ws"

definition set_weights :: "real list list \<Rightarrow> weight list \<Rightarrow> weight list" where
  \<comment> \<open>\<^verbatim>\<open>Layer.set_weights\<close>, called with as many arrays as the layer has weights\<close>
  "set_weights vals ws = map2 (\<lambda>w v. w\<lparr>wvalue := v\<rparr>) ws vals"

type_synonym model = "weight list list"

definition apply_update :: "(weight \<Rightarrow> real list) \<Rightarrow> model \<Rightarrow> model" where
  \<comment> \<open>one optimizer step: Keras computes new values for trainable weights only\<close>
  "apply_update new m = map (map (\<lambda>w. if wtrainable w then w\<lparr>wvalue := new w\<rparr> else w)) m"

fun fit :: "('s \<Rightarrow> model \<Rightarrow> 's \<times> (weight \<Rightarrow> real list)) \<Rightarrow> nat \<Rightarrow> 's \<times> model \<Rightarrow> 's \<times> model" where
  \<comment> \<open>\<^verbatim>\<open>autoencoder.fit(..., epochs, batch_size=n_nodes)\<close>: one step per epoch, the whole
      data being one batch. The optimizer (Adam, with its own state \<open>'s\<close>) is outside the
      program and is a parameter \<open>opt\<close> here.\<close>
  "fit opt 0 sm = sm"
| "fit opt (Suc k) (s, m) = (case opt s m of (s', new) \<Rightarrow> fit opt k (s', apply_update new m))"

definition update_multipliers :: "model \<Rightarrow> model" where
  \<comment> \<open>the four statements after \<^verbatim>\<open>fit\<close> in the loop body:
      \<^verbatim>\<open>x = autoencoder.get_layer(index=-1); y = x.get_weights();\<close>
      \<^verbatim>\<open>y[0] = y[0] + 1; y[1] = y[1] + 1; x.set_weights(y)\<close>\<close>
  "update_multipliers m =
     (let x = last m;
          y = get_weights x;
          y = y[0 := map (\<lambda>v. v + 1) (y ! 0)];
          y = y[1 := map (\<lambda>v. v + 1) (y ! 1)]
      in butlast m @ [set_weights y x])"

definition training_round ::
  "('s \<Rightarrow> model \<Rightarrow> 's \<times> (weight \<Rightarrow> real list)) \<Rightarrow> 's \<times> model \<Rightarrow> 's \<times> model" where
  \<comment> \<open>the body of \<^verbatim>\<open>for i in range(10)\<close>: five epochs of fitting, then the update\<close>
  "training_round opt sm = (case fit opt 5 sm of (s, m) \<Rightarrow> (s, update_multipliers m))"

definition training_loop ::
  "('s \<Rightarrow> model \<Rightarrow> 's \<times> (weight \<Rightarrow> real list)) \<Rightarrow> nat \<Rightarrow> 's \<times> model \<Rightarrow> 's \<times> model" where
  \<comment> \<open>the state after the first \<open>r\<close> rounds of the loop, which is the state at the start
      of round \<open>r\<close>; the program runs \<open>training_loop opt 10\<close>\<close>
  "training_loop opt r sm = (training_round opt ^^ r) sm"

definition multipliers :: "real \<Rightarrow> real \<Rightarrow> weight list" where
  \<comment> \<open>the constraint layer's weights when \<open>lambda_A = [l]\<close> and \<open>penalty_A = [p]\<close>\<close>
  "multipliers l p =
     [\<lparr>wname = ''lambda_A'', wvalue = [l], wtrainable = False\<rparr>,
      \<lparr>wname = ''penalty_A'', wvalue = [p], wtrainable = False\<rparr>]"


section \<open>Structural transform layers\<close>

datatype error = IndexError | InvalidArgumentError

definition TransMultA_build :: "nat \<Rightarrow> tensor" where
  \<comment> \<open>\<^verbatim>\<open>TransMultA.build\<close>: the initial value of the trainable weight \<open>adj\<close>\<close>
  "TransMultA_build n_nodes = tf_zeros n_nodes n_nodes"

definition TransMultA_call :: "tensor \<Rightarrow> tensor list \<Rightarrow> tensor list \<times> tensor" where
  \<comment> \<open>\<^verbatim>\<open>TransMultA.call\<close>; \<open>A\<close> is the layer's weight, \<open>x\<close> the list of tensors\<close>
  "TransMultA_call A x =
     (let ident = tf_eye (shape0 A);
          I_A = tensor_sub ident (K_transpose A);
          outputs = map (\<lambda>layer. tf_matmul I_A layer) x
      in (outputs, A))"

definition inverse_of :: "nat \<Rightarrow> tensor \<Rightarrow> tensor \<Rightarrow> bool" where
  \<comment> \<open>\<open>X\<close> is the inverse of the \<open>n \<times> n\<close> matrix \<open>M\<close>: what \<^verbatim>\<open>tf.linalg.inv(M)\<close> returns
      when \<open>M\<close> is invertible\<close>
  "inverse_of n M X =
     (is_tensor n n X \<and> tf_matmul X M = tf_eye n \<and> tf_matmul M X = tf_eye n)"

definition InvTransMultA_call ::
  "(tensor \<Rightarrow> tensor option) \<Rightarrow> tensor list \<Rightarrow> error + tensor list" where
  \<comment> \<open>\<^verbatim>\<open>InvTransMultA.call\<close>. \<^verbatim>\<open>x[-1]\<close> raises on an empty list.
      \<^verbatim>\<open>tf.linalg.inv\<close> belongs to TensorFlow and is the parameter \<open>linalg_inv\<close>: it
      returns the inverse, or fails (\<open>None\<close>) on a matrix that is not invertible.\<close>
  "InvTransMultA_call linalg_inv x =
     (if x = [] then Inl IndexError
      else let layers = butlast x;
               A = last x;
               ident = tf_eye (shape0 A);
               I_A = tensor_sub ident (K_transpose A)
           in case linalg_inv I_A of
                None \<Rightarrow> Inl InvalidArgumentError
              | Some inv_I_A \<Rightarrow> Inr (map (\<lambda>layer. tf_matmul inv_I_A layer) layers))"


section \<open>Acyclicity constraint\<close>

fun square_loop :: "nat \<Rightarrow> tensor \<Rightarrow> tensor" where
  \<comment> \<open>\<^verbatim>\<open>for i in range(k): x = tf.matmul(x, x)\<close>\<close>
  "square_loop 0 x = x"
| "square_loop (Suc k) x = square_loop k (tf_matmul x x)"

definition DAG_constraint :: "tensor \<Rightarrow> real \<Rightarrow> real" where
  \<comment> \<open>\<^verbatim>\<open>DAG_constraint(A, alpha)\<close>; \<^verbatim>\<open>range(n_nodes-1)\<close> is empty when \<open>n_nodes = 0\<close>\<close>
  "DAG_constraint A alpha =
     (let n_nodes = shape0 A;
          ident = tf_eye n_nodes;
          x = tensor_add ident (tf_multiply_scalar alpha (tf_multiply A A));
          x = square_loop (n_nodes - 1) x;
          h_A = tf_linalg_trace x - real n_nodes
      in h_A)"

definition LagrangianLoss :: "real \<Rightarrow> real \<Rightarrow> tensor \<Rightarrow> real \<Rightarrow> real list" where
  \<comment> \<open>\<^verbatim>\<open>LagrangianLoss\<close>; \<open>lambda_A\<close> and \<open>penalty_A\<close> are the entries of the arrays of
      shape \<open>(1)\<close>, the result is broadcast over \<^verbatim>\<open>tf.ones(n_nodes)\<close>\<close>
  "LagrangianLoss lambda_A penalty_A A alpha =
     (let n_nodes = shape0 A;
          h_A = DAG_constraint A alpha;
          output = lambda_A * h_A + 0.5 * penalty_A * h_A\<^sup>2
      in map (\<lambda>one. output * one) (replicate n_nodes 1))"




section \<open>Acyclic and cyclic adjacency matrices\<close>










section \<open>The same functions in float32 arithmetic\<close>

text \<open>
  The definitions above read every float as the real number it stands for. Where a
  property of a result depends on rounding or overflow, that reading is not the program.
  The definitions of this section, named with the suffix \<open>_f32\<close>, evaluate the same
  source expressions in IEEE 754 binary32 arithmetic: every operation returns the
  exact result rounded to the nearest float32, an infinity on overflow, and NaN where
  IEEE arithmetic has no result. A tensor is a list of rows of values of type \<open>float\<close>;
  a zero has no sign.
\<close>

definition round_half_even :: "real \<Rightarrow> int" where
  \<comment> \<open>the integer nearest to \<open>y\<close>, a tie going to the even one\<close>
  "round_half_even y =
     (let f = \<lfloor>y\<rfloor>; d = y - of_int f
      in if d < 1 / 2 then f else if 1 / 2 < d then f + 1 else if even f then f else f + 1)"

definition exponent32 :: "real \<Rightarrow> int" where
  \<comment> \<open>the binary exponent of \<open>x\<close>, not below that of the subnormal numbers\<close>
  "exponent32 x = max \<lfloor>log 2 \<bar>x\<bar>\<rfloor> (- 126)"

definition round32 :: "real \<Rightarrow> float" where
  \<comment> \<open>IEEE 754 binary32, round to nearest even: 24 significant bits, gradual
      underflow with spacing \<open>2^-149\<close>, largest finite number \<open>2^128 - 2^104\<close>, and
      overflow to an infinity from half a spacing above it\<close>
  "round32 x =
     (if 2 ^ 128 - 2 ^ 103 \<le> \<bar>x\<bar> then (if 0 < x then PInf else NInf)
      else if \<bar>x\<bar> \<le> 1 / 2 ^ 150 then Fin 0
      else let q = 2 powi (exponent32 x - 23)
           in Fin (of_int (round_half_even (x / q)) * q))"






















section \<open>Properties of float32 arithmetic\<close>

lemma u2: "[0..<2] = [0, Suc 0]" by (simp add: upt_rec)


lemma exponent32_eq:
  assumes "2 powi e \<le> \<bar>x\<bar>" and "\<bar>x\<bar> < 2 powi (e + 1)" and "- 126 \<le> e"
  shows "exponent32 x = e"
proof -
  have x: "0 < \<bar>x\<bar>"
    using assms(1) by (smt (verit) zero_less_power_int)
  have p: "(2::real) powr (of_int k) = 2 powi k" for k
    by (simp add: powr_real_of_int')
  have a: "2 powr (of_int e) \<le> \<bar>x\<bar>"
    using assms(1) by (simp only: p)
  have b: "\<bar>x\<bar> < 2 powr (of_int (e + 1))"
    using assms(2) by (simp only: p)
  have "of_int e \<le> log 2 \<bar>x\<bar>"
    using a x by (subst le_log_iff) simp_all
  moreover have "log 2 \<bar>x\<bar> < of_int (e + 1)"
    using b x by (subst log_less_iff) simp_all
  ultimately have "of_int e \<le> log 2 \<bar>x\<bar>" "log 2 \<bar>x\<bar> < of_int (e + 1)"
    by blast+
  then have "\<lfloor>log 2 \<bar>x\<bar>\<rfloor> = e"
    by (intro floor_unique) simp_all
  then show ?thesis
    using assms(3) by (simp add: exponent32_def)
qed

lemma round32_eval:
  assumes "2 powi e \<le> \<bar>x\<bar>" and "\<bar>x\<bar> < 2 powi (e + 1)" and "- 126 \<le> e"
    and "\<bar>x\<bar> < 2 ^ 128 - 2 ^ 103" and "round_half_even (x / 2 powi (e - 23)) = m"
  shows "round32 x = Fin (of_int m * 2 powi (e - 23))"
proof -
  have "1 / 2 ^ 150 < (2::real) powi e"
  proof -
    have "(2::real) powi (- 150) < 2 powi e"
      using assms(3) by (intro power_int_strict_increasing) simp_all
    then show ?thesis by (simp add: power_int_minus field_simps)
  qed
  then have "\<not> \<bar>x\<bar> \<le> 1 / 2 ^ 150"
    using assms(1) by linarith
  then show ?thesis
    using assms(4,5) by (simp add: round32_def exponent32_eq [OF assms(1-3)])
qed

lemma round32_0 [simp]: "round32 0 = Fin 0"
  by (simp add: round32_def)

lemma round32_1 [simp]: "round32 1 = Fin 1"
  using round32_eval [of 0 1 "2 ^ 23"] by (simp add: round_half_even_def)

lemma round32_m1 [simp]: "round32 (- 1) = Fin (- 1)"
  using round32_eval [of 0 "- 1" "- (2 ^ 23)"] by (simp add: round_half_even_def)

lemma round32_2 [simp]: "round32 2 = Fin 2"
  using round32_eval [of 1 2 "2 ^ 23"] by (simp add: round_half_even_def)

lemma round32_3 [simp]: "round32 3 = Fin 3"
  using round32_eval [of 1 3 "3 * 2 ^ 22"] by (simp add: round_half_even_def)

lemma round32_4 [simp]: "round32 4 = Fin 4"
  using round32_eval [of 2 4 "2 ^ 23"] by (simp add: round_half_even_def)

lemma round32_m2 [simp]: "round32 (- 2) = Fin (- 2)"
  using round32_eval [of 1 "- 2" "- (2 ^ 23)"] by (simp add: round_half_even_def)

lemma round32_half [simp]: "round32 (1 / 2) = Fin (1 / 2)"
  using round32_eval [of "- 1" "1 / 2" "2 ^ 23"] by (simp add: round_half_even_def)

lemma round32_mhalf [simp]: "round32 (- (1 / 2)) = Fin (- (1 / 2))"
  using round32_eval [of "- 1" "- (1 / 2)" "- (2 ^ 23)"] by (simp add: round_half_even_def)

lemma round32_quarter [simp]: "round32 (1 / 4) = Fin (1 / 4)"
  using round32_eval [of "- 2" "1 / 4" "2 ^ 23"] by (simp add: round_half_even_def)

lemma round32_5_4 [simp]: "round32 (5 / 4) = Fin (5 / 4)"
  using round32_eval [of 0 "5 / 4" "5 * 2 ^ 21"] by (simp add: round_half_even_def)

lemma round32_5_2 [simp]: "round32 (5 / 2) = Fin (5 / 2)"
  using round32_eval [of 1 "5 / 2" "5 * 2 ^ 21"] by (simp add: round_half_even_def)

lemma round32_2m14 [simp]: "round32 (1 / 16384) = Fin (1 / 16384)"
  using round32_eval [of "- 14" "1 / 16384" "2 ^ 23"] by (simp add: round_half_even_def)

lemma round32_2m15 [simp]: "round32 (1 / 32768) = Fin (1 / 32768)"
  using round32_eval [of "- 15" "1 / 32768" "2 ^ 23"] by (simp add: round_half_even_def)

lemma round32_2m30 [simp]: "round32 (1 / 1073741824) = Fin (1 / 1073741824)"
  using round32_eval [of "- 30" "1 / 1073741824" "2 ^ 23"] by (simp add: round_half_even_def)

lemma round32_1_2m30 [simp]: "round32 (1073741825 / 1073741824) = Fin 1"
  using round32_eval [of 0 "1073741825 / 1073741824" "2 ^ 23"] by (simp add: round_half_even_def)

lemma round32_1e8 [simp]: "round32 100000000 = Fin 100000000"
  using round32_eval [of 26 100000000 12500000] by (simp add: round_half_even_def)

lemma round32_m1e8 [simp]: "round32 (- 100000000) = Fin (- 100000000)"
  using round32_eval [of 26 "- 100000000" "- 12500000"] by (simp add: round_half_even_def)

lemma round32_m99999999 [simp]: "round32 (- 99999999) = Fin (- 100000000)"
  using round32_eval [of 26 "- 99999999" "- 12500000"] by (simp add: round_half_even_def)

lemma f_add_NaN_right [simp]: "f_add x NaN = NaN"
  by (cases x) simp_all









section \<open>Properties of the loss layers\<close>





text \<open>
  C9. The three loss layers are identities on the data they forward:
  \<open>ReconstructionLossLayer\<close> returns the decoder parameters \<^verbatim>\<open>inputs[1]\<close>,
  \<open>KLDivergenceLayer\<close> returns the latent sample \<^verbatim>\<open>inputs[2]\<close>, and
  \<open>ConstraintLossLayer\<close> returns its second input. The only effect of a call is that
  one loss term is appended to the layer's losses, which are otherwise kept.
\<close>

theorem loss_layers_identity:
  "fst (ReconstructionLossLayer_call rl eps (y, params) ls1) = params
   \<and> (\<exists>l. snd (ReconstructionLossLayer_call rl eps (y, params) ls1) = ls1 @ [l])
   \<and> fst (KLDivergenceLayer_call beta mean log_var (z_mean, z_log_var, z) ls2) = z
   \<and> (\<exists>l. snd (KLDivergenceLayer_call beta mean log_var (z_mean, z_log_var, z) ls2) = ls2 @ [l])
   \<and> fst (ConstraintLossLayer_call cl alpha lambda_A penalty_A (A, layers) ls3) = layers
   \<and> (\<exists>l. snd (ConstraintLossLayer_call cl alpha lambda_A penalty_A (A, layers) ls3) = ls3 @ [l])"
  by (simp add: ReconstructionLossLayer_call_def KLDivergenceLayer_call_def
      ConstraintLossLayer_call_def add_loss_def Let_def)

lemma foldl_f_add_finite: "foldl f_add (Fin a) (map Fin xs) = Fin (a + sum_list xs)"
  by (induction xs arbitrary: a) (simp_all add: add.assoc)

lemma K_mean_last_finite:
  "K_mean_last (finite_tensor X) =
     map (\<lambda>row. if row \<noteq> [] then Fin (sum_list row / real (length row)) else NaN) X"
  by (simp add: K_mean_last_def finite_tensor_def foldl_f_add_finite f_div_count_def o_def)

lemma reference_entry:
  "i < length X \<Longrightarrow> j < length (X ! i) \<Longrightarrow>
     fst (create_reference mean log_var X) ! i ! j = mean
     \<and> snd (create_reference mean log_var X) ! i ! j = log_var"
  by (simp add: create_reference_def tf_multiply_scalar_def Let_def)

text \<open>
  C7, as the code has it. For a batch of \<open>b\<close> rows and \<open>d \<ge> 1\<close> latent dimensions the
  layer registers one loss value per batch row: \<open>beta\<close> times the mean over the \<open>d\<close>
  latent dimensions of the analytic per-element term against the broadcast reference.
  Nothing is summed over the latent dimensions and nothing is averaged over the batch.
\<close>

theorem KLDivergenceLayer_loss:
  assumes "is_tensor b d z_mean" and "is_tensor b d z_log_var" and "0 < d"
  shows "snd (KLDivergenceLayer_call beta mean log_var (z_mean, z_log_var, z) losses) =
           losses @ [map (\<lambda>i. Fin (beta *
              ((\<Sum>j<d. gaussian_kl_elem (z_mean ! i ! j) (z_log_var ! i ! j) mean log_var)
                / real d))) [0..<b]]"
proof -
  have len: "length z_mean = b" and rows: "\<And>i. i < b \<Longrightarrow> length (z_mean ! i) = d"
    using assms(1) by (auto simp: is_tensor_def list_all_length)
  define kl where "kl = gaussian_kl (z_mean, z_log_var) (create_reference mean log_var z_mean)"
  have kl_len: "length kl = b"
    by (simp add: kl_def gaussian_kl_def len split: prod.splits)
  have kl_row: "kl ! i = map (\<lambda>j. gaussian_kl_elem (z_mean ! i ! j) (z_log_var ! i ! j)
                     mean log_var) [0..<d]" if "i < b" for i
  proof -
    have "kl ! i = map (\<lambda>j. gaussian_kl_elem (z_mean ! i ! j) (z_log_var ! i ! j)
             (fst (create_reference mean log_var z_mean) ! i ! j)
             (snd (create_reference mean log_var z_mean) ! i ! j)) [0..<d]"
      using that by (simp add: kl_def gaussian_kl_def len rows split: prod.splits)
    also have "\<dots> = map (\<lambda>j. gaussian_kl_elem (z_mean ! i ! j) (z_log_var ! i ! j)
             mean log_var) [0..<d]"
      using that by (intro map_cong refl) (simp add: reference_entry len rows)
    finally show ?thesis .
  qed
  have "scale_loss beta (K_mean_last (finite_tensor kl)) =
          map (\<lambda>i. Fin (beta *
              ((\<Sum>j<d. gaussian_kl_elem (z_mean ! i ! j) (z_log_var ! i ! j) mean log_var)
                / real d))) [0..<b]"
  proof (rule nth_equalityI)
    show "length (scale_loss beta (K_mean_last (finite_tensor kl))) = length (map (\<lambda>i. Fin (beta *
              ((\<Sum>j<d. gaussian_kl_elem (z_mean ! i ! j) (z_log_var ! i ! j) mean log_var)
                / real d))) [0..<b])"
      by (simp add: scale_loss_def K_mean_last_finite kl_len)
  next
    fix i assume "i < length (scale_loss beta (K_mean_last (finite_tensor kl)))"
    then have i: "i < b"
      by (simp add: scale_loss_def K_mean_last_finite kl_len)
    have "sum_list (kl ! i) =
            (\<Sum>j<d. gaussian_kl_elem (z_mean ! i ! j) (z_log_var ! i ! j) mean log_var)"
      by (simp add: kl_row [OF i] interv_sum_list_conv_sum_set_nat atLeast0LessThan)
    moreover have "length (kl ! i) = d" "kl ! i \<noteq> []"
      using \<open>0 < d\<close> by (auto simp: kl_row [OF i])
    ultimately show "scale_loss beta (K_mean_last (finite_tensor kl)) ! i = map (\<lambda>i. Fin (beta *
              ((\<Sum>j<d. gaussian_kl_elem (z_mean ! i ! j) (z_log_var ! i ! j) mean log_var)
                / real d))) [0..<b] ! i"
      using i by (simp add: scale_loss_def K_mean_last_finite kl_len)
  qed
  then show ?thesis
    by (simp add: KLDivergenceLayer_call_def Let_def add_loss_def kl_def)
qed

lemma gaussian_kl_elem_std: "gaussian_kl_elem m 0 0 0 = m\<^sup>2 / 2"
  by (simp add: gaussian_kl_elem_def field_simps)

theorem KLDivergenceLayer_loss_witness:
  "is_tensor 2 2 [[1, 1], [1, 1::real]] \<and> is_tensor 2 2 [[0, 0], [0, 0::real]] \<and> (0::nat) < 2
   \<and> snd (KLDivergenceLayer_call 1 0 0 ([[1, 1], [1, 1]], [[0, 0], [0, 0]], [[0, 0], [0, 0]]) [])
       = [[Fin (1 / 2), Fin (1 / 2)]]"
proof -
  have a: "is_tensor 2 2 [[1, 1], [1, 1::real]]" and b: "is_tensor 2 2 [[0, 0], [0, 0::real]]"
    by (simp_all add: is_tensor_def)
  have c: "(0::nat) < 2" by simp
  have u: "[0..<2] = [0, Suc 0]" by (simp add: upt_rec)
  show ?thesis
    using a b c KLDivergenceLayer_loss [OF a b c, of 1 0 0 "[[0, 0], [0, 0]]" "[]"]
    by (simp add: u gaussian_kl_elem_std lessThan_Suc eval_nat_numeral)
qed

text \<open>
  The claim C7 as worded fails: for a batch of two rows with posterior mean 1 and
  log-variance 0 in both latent dimensions, standard normal reference and \<open>beta = 1\<close>,
  the layer registers 1/2 for each row, whereas the sum over the latent dimensions
  averaged over the batch is 1.
\<close>

theorem KLDivergenceLayer_not_sum_counterexample:
  "snd (KLDivergenceLayer_call 1 0 0 ([[1, 1], [1, 1]], [[0, 0], [0, 0]], [[0, 0], [0, 0]]) [])
     = [[Fin (1 / 2), Fin (1 / 2)]]
   \<and> KL_loss_as_specified 1 0 0 ([[1, 1], [1, 1]], [[0, 0], [0, 0]]) = 1"
proof -
  have u: "[0..<2] = [0, Suc 0]" by (simp add: upt_rec)
  have "gaussian_kl ([[1, 1], [1, 1]], [[0, 0], [0, 0]]) (create_reference 0 0 [[1, 1], [1, 1]])
          = [[1 / 2, 1 / 2], [1 / 2, 1 / 2]]"
    by (simp add: gaussian_kl_def create_reference_def tf_multiply_scalar_def u
        gaussian_kl_elem_std)
  then have "snd (KLDivergenceLayer_call 1 0 0
                ([[1, 1], [1, 1]], [[0, 0], [0, 0]], [[0, 0], [0, 0]]) [])
          = [[Fin (1 / 2), Fin (1 / 2)]]"
    by (simp add: KLDivergenceLayer_call_def Let_def add_loss_def scale_loss_def
        K_mean_last_finite)
  moreover have "KL_loss_as_specified 1 0 0 ([[1, 1], [1, 1]], [[0, 0], [0, 0]]) = 1"
    by (simp add: KL_loss_as_specified_def u gaussian_kl_elem_std)
  ultimately show ?thesis by simp
qed


section \<open>Properties of tensors and matrix products\<close>

lemma length_tabulate2 [simp]: "length (tabulate2 r c f) = r"
  by (simp add: tabulate2_def)

lemma nth_tabulate2_row: "i < r \<Longrightarrow> tabulate2 r c f ! i = map (f i) [0..<c]"
  by (simp add: tabulate2_def)

lemma nth_tabulate2 [simp]: "i < r \<Longrightarrow> j < c \<Longrightarrow> tabulate2 r c f ! i ! j = f i j"
  by (simp add: tabulate2_def)

lemma is_tensor_tabulate2 [simp]: "is_tensor r c (tabulate2 r c f)"
  by (simp add: is_tensor_def tabulate2_def list_all_iff)

lemma is_tensor_row: "is_tensor r c A \<Longrightarrow> i < r \<Longrightarrow> length (A ! i) = c"
  by (auto simp: is_tensor_def list_all_length)

lemma is_tensor_shape0: "is_tensor r c A \<Longrightarrow> shape0 A = r"
  by (simp add: is_tensor_def shape0_def)

lemma is_tensor_shape1: "is_tensor r c A \<Longrightarrow> 0 < r \<Longrightarrow> shape1 A = c"
  by (cases A) (auto simp: is_tensor_def shape1_def)

lemma tensor_eqI:
  assumes "is_tensor r c A" and "is_tensor r c B"
    and "\<And>i j. i < r \<Longrightarrow> j < c \<Longrightarrow> A ! i ! j = B ! i ! j"
  shows "A = B"
proof (rule nth_equalityI)
  show "length A = length B"
    using assms(1,2) by (simp add: is_tensor_def)
next
  fix i assume "i < length A"
  then have i: "i < r" using assms(1) by (simp add: is_tensor_def)
  show "A ! i = B ! i"
    by (rule nth_equalityI) (use i assms in \<open>simp_all add: is_tensor_row\<close>)
qed

lemma tabulate2_eq:
  "is_tensor r c A \<Longrightarrow> (\<And>i j. i < r \<Longrightarrow> j < c \<Longrightarrow> A ! i ! j = f i j) \<Longrightarrow> tabulate2 r c f = A"
  by (rule tensor_eqI [of r c]) simp_all

lemma sum_list_upt: "sum_list (map f [0..<n]) = (\<Sum>k<n. f k)"
  by (simp add: interv_sum_list_conv_sum_set_nat atLeast0LessThan)

lemma is_tensor_matmul:
  "is_tensor r m A \<Longrightarrow> is_tensor m c B \<Longrightarrow> 0 < m \<Longrightarrow> is_tensor r c (tf_matmul A B)"
  by (simp add: tf_matmul_def is_tensor_shape0 is_tensor_shape1)

lemma nth_matmul:
  "is_tensor r m A \<Longrightarrow> is_tensor m c B \<Longrightarrow> 0 < m \<Longrightarrow> i < r \<Longrightarrow> j < c \<Longrightarrow>
     tf_matmul A B ! i ! j = (\<Sum>k<m. A ! i ! k * B ! k ! j)"
  by (simp add: tf_matmul_def is_tensor_shape0 is_tensor_shape1 sum_list_upt)


lemma is_tensor_eye [simp]: "is_tensor n n (tf_eye n)"
  by (simp add: tf_eye_def)

lemma nth_eye: "i < n \<Longrightarrow> j < n \<Longrightarrow> tf_eye n ! i ! j = (if i = j then 1 else 0)"
  by (simp add: tf_eye_def)

lemma matmul_eye_left:
  assumes T: "is_tensor n d T"
  shows "tf_matmul (tf_eye n) T = T"
proof (cases "n = 0")
  case True
  then show ?thesis using T by (simp add: tf_matmul_def is_tensor_def tabulate2_def shape0_def tf_eye_def)
next
  case False
  then have n: "0 < n" by simp
  show ?thesis
  proof (rule tensor_eqI [of n d])
    show "is_tensor n d (tf_matmul (tf_eye n) T)"
      by (rule is_tensor_matmul [OF is_tensor_eye T n])
    show "is_tensor n d T" by (rule T)
  next
    fix i j assume i: "i < n" and j: "j < d"
    have "tf_matmul (tf_eye n) T ! i ! j = (\<Sum>k<n. tf_eye n ! i ! k * T ! k ! j)"
      by (rule nth_matmul [OF is_tensor_eye T n i j])
    also have "\<dots> = (\<Sum>k<n. if k = i then T ! k ! j else 0)"
      by (intro sum.cong refl) (use i in \<open>auto simp: nth_eye\<close>)
    also have "\<dots> = T ! i ! j"
      using i by simp
    finally show "tf_matmul (tf_eye n) T ! i ! j = T ! i ! j" .
  qed
qed

lemma matmul_eye_right:
  assumes T: "is_tensor r n T" and n: "0 < n"
  shows "tf_matmul T (tf_eye n) = T"
proof (rule tensor_eqI [of r n])
  show "is_tensor r n (tf_matmul T (tf_eye n))"
    by (rule is_tensor_matmul [OF T is_tensor_eye n])
  show "is_tensor r n T" by (rule T)
next
  fix i j assume i: "i < r" and j: "j < n"
  have "tf_matmul T (tf_eye n) ! i ! j = (\<Sum>k<n. T ! i ! k * tf_eye n ! k ! j)"
    by (rule nth_matmul [OF T is_tensor_eye n i j])
  also have "\<dots> = (\<Sum>k<n. if k = j then T ! i ! k else 0)"
    by (intro sum.cong refl) (use j in \<open>auto simp: nth_eye\<close>)
  also have "\<dots> = T ! i ! j"
    using j by simp
  finally show "tf_matmul T (tf_eye n) ! i ! j = T ! i ! j" .
qed



section \<open>Properties of the structural transform layers\<close>










section \<open>Properties of the acyclicity constraint\<close>









lemma shape0_tabulate2 [simp]: "shape0 (tabulate2 r c f) = r"
  by (simp add: shape0_def)

lemma shape1_tabulate2 [simp]: "0 < r \<Longrightarrow> shape1 (tabulate2 r c f) = c"
  by (rule is_tensor_shape1 [of r]) simp_all

lemma nth_multiply_scalar:
  "i < length X \<Longrightarrow> j < length (X ! i) \<Longrightarrow> tf_multiply_scalar c X ! i ! j = c * X ! i ! j"
  by (simp add: tf_multiply_scalar_def)

lemma zeros_I_A: "tensor_sub (tf_eye n) (K_transpose (tf_zeros n n)) = tf_eye n"
proof (cases "n = 0")
  case True
  then show ?thesis by (simp add: tensor_sub_def tf_eye_def tabulate2_def shape0_def)
next
  case False
  then have n: "0 < n" by simp
  have "tabulate2 n n (\<lambda>i j. tf_eye n ! i ! j - K_transpose (tf_zeros n n) ! i ! j) = tf_eye n"
    by (rule tabulate2_eq) (simp_all add: K_transpose_def tf_zeros_def n)
  then show ?thesis
    by (simp add: tensor_sub_def tf_eye_def n)
qed

lemma zeros_constraint_matrix:
  "tensor_add (tf_eye n) (tf_multiply_scalar alpha (tf_multiply (tf_zeros n n) (tf_zeros n n)))
     = tf_eye n"
proof (cases "n = 0")
  case True
  then show ?thesis by (simp add: tensor_add_def tf_eye_def tabulate2_def shape0_def)
next
  case False
  then have n: "0 < n" by simp
  have "tabulate2 n n (\<lambda>i j. tf_eye n ! i ! j
           + tf_multiply_scalar alpha (tf_multiply (tf_zeros n n) (tf_zeros n n)) ! i ! j)
          = tf_eye n"
    by (rule tabulate2_eq)
      (simp_all add: nth_multiply_scalar nth_tabulate2_row tf_multiply_def tf_zeros_def n)
  then show ?thesis
    by (simp add: tensor_add_def tf_eye_def n)
qed

lemma square_loop_eye: "square_loop k (tf_eye n) = tf_eye n"
  by (induction k) (simp_all add: matmul_eye_left [OF is_tensor_eye])

lemma trace_eye: "tf_linalg_trace (tf_eye n) = real n"
proof -
  have "(\<Sum>k<n. tf_eye n ! k ! k) = (\<Sum>k<n. 1)"
    by (intro sum.cong refl) (simp add: nth_eye)
  then show ?thesis
    by (simp add: tf_linalg_trace_def sum_list_upt tf_eye_def)
qed

text \<open>
  C10. The adjacency weight is built as the zero matrix. With it \<open>I - A\<^sup>T\<close> is the
  identity, the forward transform returns its input tensors (of shape \<open>n \<times> d\<close>) unchanged,
  the inverse transform, whose inversion of the identity is defined and returns its inverse,
  returns them unchanged as well, and the acyclicity measure is 0 for every \<open>alpha\<close>.
\<close>

theorem initial_adjacency:
  assumes "list_all (is_tensor n d) Ts"
    and "linalg_inv (tf_eye n) = Some X" and "inverse_of n (tf_eye n) X"
  shows "TransMultA_build n = tf_zeros n n
         \<and> tensor_sub (tf_eye n) (K_transpose (TransMultA_build n)) = tf_eye n
         \<and> TransMultA_call (TransMultA_build n) Ts = (Ts, TransMultA_build n)
         \<and> InvTransMultA_call linalg_inv (Ts @ [TransMultA_build n]) = Inr Ts
         \<and> DAG_constraint (TransMultA_build n) alpha = 0"
proof -
  have s: "shape0 (tf_zeros n n) = n"
    by (simp add: shape0_def tf_zeros_def)
  have T: "is_tensor n d T" if "T \<in> set Ts" for T
    using that assms(1) by (simp add: list_all_iff)
  have fwd: "map (tf_matmul (tf_eye n)) Ts = Ts"
    by (rule map_idI) (rule matmul_eye_left [OF T])
  have "tf_matmul X (tf_eye n) = tf_eye n" and Xt: "is_tensor n n X"
    using assms(3) by (simp_all add: inverse_of_def)
  then have X: "X = tf_eye n"
    by (cases "n = 0") (simp_all add: matmul_eye_right, simp add: is_tensor_def tf_eye_def tabulate2_def)
  have 1: "TransMultA_call (TransMultA_build n) Ts = (Ts, TransMultA_build n)"
    by (simp add: TransMultA_call_def TransMultA_build_def Let_def s zeros_I_A fwd)
  have 2: "InvTransMultA_call linalg_inv (Ts @ [TransMultA_build n]) = Inr Ts"
    by (simp add: InvTransMultA_call_def TransMultA_build_def Let_def s zeros_I_A assms(2) X fwd)
  have 3: "DAG_constraint (TransMultA_build n) alpha = 0"
    by (simp add: DAG_constraint_def TransMultA_build_def Let_def s zeros_constraint_matrix
        square_loop_eye trace_eye)
  from 1 2 3 show ?thesis by (simp add: TransMultA_build_def zeros_I_A)
qed

theorem initial_adjacency_witness:
  "list_all (is_tensor 2 2) [[[1, 2], [3, 4::real]]]
   \<and> (\<lambda>M. Some (tf_eye 2)) (tf_eye 2) = Some (tf_eye 2)
   \<and> inverse_of 2 (tf_eye 2) (tf_eye 2)
   \<and> TransMultA_build 2 = [[0, 0], [0, 0]]
   \<and> TransMultA_call (TransMultA_build 2) [[[1, 2], [3, 4]]]
       = ([[[1, 2], [3, 4]]], TransMultA_build 2)
   \<and> InvTransMultA_call (\<lambda>M. Some (tf_eye 2)) [[[1, 2], [3, 4]], TransMultA_build 2]
       = Inr [[[1, 2], [3, 4]]]
   \<and> DAG_constraint (TransMultA_build 2) (1 / 2) = 0"
proof -
  have a: "list_all (is_tensor 2 2) [[[1, 2], [3, 4::real]]]"
    by (simp add: is_tensor_def)
  have b: "(\<lambda>M. Some (tf_eye 2)) (tf_eye 2) = Some (tf_eye 2)"
    by simp
  have c: "inverse_of 2 (tf_eye 2) (tf_eye 2)"
    by (simp add: inverse_of_def matmul_eye_left [OF is_tensor_eye])
  have z: "tf_zeros 2 2 = [[0, 0], [0, 0]]"
    by (simp add: tf_zeros_def tabulate2_def u2)
  show ?thesis
    using a b c
      initial_adjacency [where linalg_inv = "\<lambda>M. Some (tf_eye 2)" and alpha = "1 / 2", OF a _ c]
    unfolding z by auto
qed

section \<open>Acyclic and cyclic matrices under the constraint\<close>





























section \<open>Properties of the training loop\<close>

lemma build_multipliers: "ConstraintLossLayer_build = multipliers 0 1"
  by (simp add: ConstraintLossLayer_build_def multipliers_def add_weight_def)

lemma apply_update_multipliers:
  "apply_update new (ls @ [multipliers l p]) = apply_update new ls @ [multipliers l p]"
  by (simp add: apply_update_def multipliers_def)

lemma fit_multipliers:
  "\<exists>s' ls'. fit opt k (s, ls @ [multipliers l p]) = (s', ls' @ [multipliers l p])"
proof (induction k arbitrary: s ls)
  case 0
  show ?case by simp
next
  case (Suc k)
  obtain s1 new where o: "opt s (ls @ [multipliers l p]) = (s1, new)"
    by (cases "opt s (ls @ [multipliers l p])")
  from Suc.IH [of s1 "apply_update new ls"] show ?case
    by (simp add: o apply_update_multipliers)
qed

lemma update_multipliers_step:
  "update_multipliers (ls @ [multipliers l p]) = ls @ [multipliers (l + 1) (p + 1)]"
  by (simp add: update_multipliers_def get_weights_def set_weights_def multipliers_def Let_def)

lemma training_round_multipliers:
  "\<exists>s' ls'. training_round opt (s, ls @ [multipliers l p])
              = (s', ls' @ [multipliers (l + 1) (p + 1)])"
proof -
  obtain s' ls' where "fit opt 5 (s, ls @ [multipliers l p]) = (s', ls' @ [multipliers l p])"
    using fit_multipliers [of opt 5 s ls l p] by blast
  then show ?thesis
    by (simp add: training_round_def update_multipliers_step)
qed

lemma training_loop_multipliers:
  "\<exists>s' ls'. training_loop opt r (s, ls @ [multipliers 0 1])
              = (s', ls' @ [multipliers (real r) (1 + real r)])"
proof (induction r)
  case 0
  show ?case by (simp add: training_loop_def)
next
  case (Suc r)
  then obtain s1 ls1 where
    "training_loop opt r (s, ls @ [multipliers 0 1]) = (s1, ls1 @ [multipliers (real r) (1 + real r)])"
    by blast
  moreover obtain s2 ls2 where
    "training_round opt (s1, ls1 @ [multipliers (real r) (1 + real r)])
       = (s2, ls2 @ [multipliers (real r + 1) (1 + real r + 1)])"
    using training_round_multipliers [of opt s1 ls1 "real r" "1 + real r"] by blast
  ultimately show ?case
    by (simp add: training_loop_def add.commute add.left_commute)
qed

text \<open>
  C4. The constraint layer is the last layer of the model and is built with
  \<open>lambda_A = 0\<close>, \<open>penalty_A = 1\<close>, both non-trainable. Whatever the optimizer does, a
  \<open>fit\<close> of any number of epochs leaves the two weights as they are; the update after
  the round adds exactly 1 to each and changes no other layer; so after \<open>r\<close> rounds, that is
  at the start of round \<open>r\<close>, \<open>lambda_A = r\<close> and \<open>penalty_A = 1 + r\<close> (for every \<open>r\<close>, in
  particular for the rounds 0 to 9 of the program and for its final state \<open>r = 10\<close>).
\<close>

theorem lagrangian_schedule:
  "(\<exists>s' ls'. fit opt k (s, ls @ [multipliers l p]) = (s', ls' @ [multipliers l p]))
   \<and> update_multipliers (ls @ [multipliers l p]) = ls @ [multipliers (l + 1) (p + 1)]
   \<and> get_weights (last (snd (training_loop opt r (s, ls @ [ConstraintLossLayer_build]))))
       = [[real r], [1 + real r]]"
proof -
  obtain s' ls' where
    "training_loop opt r (s, ls @ [multipliers 0 1]) = (s', ls' @ [multipliers (real r) (1 + real r)])"
    using training_loop_multipliers [of opt r s ls] by blast
  then have "get_weights (last (snd (training_loop opt r (s, ls @ [ConstraintLossLayer_build]))))
       = [[real r], [1 + real r]]"
    by (simp add: build_multipliers get_weights_def multipliers_def)
  then show ?thesis
    using fit_multipliers [of opt k s ls l p] update_multipliers_step [of ls l p] by blast
qed


section \<open>Properties of the likelihoods\<close>

lemma NB_finite:
  assumes "0 \<le> y" "0 \<le> mu" "0 \<le> r" "0 < eps"
  shows "NB_loglikelihood b y (mu, r) eps =
           Fin (log_gamma (y + r + eps) - log_gamma (r + eps) - log_gamma (y + 1)
                + (y * ln ((mu + eps) / (r + mu + eps)) + r * ln ((r + eps) / (r + mu + eps))))"
proof -
  have p: "0 < y + r + eps" "0 < r + eps" "0 < y + 1" "0 < mu + eps" "0 < r + mu + eps"
    using assms by simp_all
  have d: "r + mu + eps \<noteq> 0" using p(5) by simp
  have q: "0 < (mu + eps) / (r + mu + eps)" "0 < (r + eps) / (r + mu + eps)"
    using p by simp_all
  have lg: "tf_lgamma (y + r + eps) = Fin (log_gamma (y + r + eps))"
    "tf_lgamma (r + eps) = Fin (log_gamma (r + eps))"
    "tf_lgamma (y + 1) = Fin (log_gamma (y + 1))"
    using p(1-3) by (simp_all add: tf_lgamma_def)
  have lo: "tf_log (tf_div (mu + eps) (r + mu + eps)) = Fin (ln ((mu + eps) / (r + mu + eps)))"
    "tf_log (tf_div (r + eps) (r + mu + eps)) = Fin (ln ((r + eps) / (r + mu + eps)))"
    using q d by (simp_all add: tf_div_def)
  show ?thesis
    by (simp add: NB_loglikelihood_def Let_def lg lo f_sub_def)
qed

lemma case_zero_tf2:
  assumes "0 \<le> mu" "0 \<le> r" "0 \<le> pi'" "pi' \<le> 1" "0 < eps"
  shows "tf_log (f_add (Fin (eps + pi')) (f_mul (Fin (1 - pi')) (tf_pow (tf_div r (r + mu + eps)) r)))
          = Fin (ln (eps + pi' + (1 - pi') * (if r = 0 then 1 else (r / (r + mu + eps)) powr r)))"
proof -
  have d: "r + mu + eps \<noteq> 0" "0 < r + mu + eps" using assms by simp_all
  have pw: "tf_pow (tf_div r (r + mu + eps)) r
              = Fin (if r = 0 then 1 else (r / (r + mu + eps)) powr r)"
    using assms(2) d by (simp add: tf_div_def)
  have "0 \<le> (1 - pi') * (if r = 0 then 1 else (r / (r + mu + eps)) powr r)"
    using assms(4) by simp
  then have "0 < eps + pi' + (1 - pi') * (if r = 0 then 1 else (r / (r + mu + eps)) powr r)"
    using assms(3,5) by linarith
  then show ?thesis
    by (simp add: pw)
qed

lemma case_zero_legacy:
  assumes "0 \<le> mu" "0 < r" "0 \<le> pi'" "pi' \<le> 1"
  shows "tf_log (f_add (Fin pi') (f_mul (Fin (1 - pi')) (tf_pow (tf_div r (r + mu)) r)))
          = Fin (ln (pi' + (1 - pi') * (r / (r + mu)) powr r))"
proof -
  have d: "r + mu \<noteq> 0" "0 < r + mu" using assms by simp_all
  have b: "0 < r / (r + mu)" using assms(2) d(2) by simp
  have dv: "tf_div r (r + mu) = Fin (r / (r + mu))"
    unfolding tf_div_def using d(1) by (rule if_P)
  have r: "r \<noteq> 0" using assms(2) by simp
  have pw: "tf_pow (tf_div r (r + mu)) r = Fin ((r / (r + mu)) powr r)"
    unfolding dv tf_pow.simps using r b by (simp only: if_False if_True)
  have "0 < (r / (r + mu)) powr r" using r d(1) by simp
  then have "0 < pi' + (1 - pi') * (r / (r + mu)) powr r"
  proof (cases "pi' = 1")
    case True
    then show ?thesis by simp
  next
    case False
    then have "0 < 1 - pi'" using assms(4) by simp
    then have "0 < (1 - pi') * (r / (r + mu)) powr r"
      using \<open>0 < (r / (r + mu)) powr r\<close> by simp
    then show ?thesis using assms(3) by linarith
  qed
  then show ?thesis
    by (simp add: pw)
qed

text \<open>
  C6, as the code has it by design (the branch for TensorFlow 2). For every element with
  \<open>y \<ge> 0\<close>, \<open>mu \<ge> 0\<close>, \<open>r > 0\<close>, \<open>pi\<close> in \<open>[0, 1]\<close> and \<open>eps > 0\<close>: when \<open>y < 1e-8\<close> the
  result is the structural-zero branch \<open>log(eps + pi + (1 - pi) * (r / (r + mu + eps))^r)\<close>,
  and otherwise it is \<open>log(1 - pi + eps)\<close> plus \<open>NB_loglikelihood(y, (mu, r))\<close>: the floor
  \<open>eps\<close> is inside the logarithm of \<open>1 - pi\<close> as well.
\<close>

theorem ZINB_branches:
  assumes "0 \<le> y" and "0 \<le> mu" and "0 < r" and "0 \<le> pi'" and "pi' \<le> 1" and "0 < eps"
  shows "(y < 1 / 10 ^ 8 \<longrightarrow>
            ZINB_loglikelihood True y (mu, r, pi') eps
              = Fin (ln (eps + pi' + (1 - pi') * (r / (r + mu + eps)) powr r)))
       \<and> (\<not> y < 1 / 10 ^ 8 \<longrightarrow>
            ZINB_loglikelihood True y (mu, r, pi') eps
              = f_add (Fin (ln (1 - pi' + eps))) (NB_loglikelihood True y (mu, r) eps))"
proof -
  have z2: "tf_log (f_add (Fin (eps + pi')) (f_mul (Fin (1 - pi')) (tf_pow (tf_div r (r + mu + eps)) r)))
          = Fin (ln (eps + pi' + (1 - pi') * (r / (r + mu + eps)) powr r))"
    using case_zero_tf2 [of mu r pi' eps] assms by simp
  have n2: "tf_log (Fin (1 - pi' + eps)) = Fin (ln (1 - pi' + eps))"
    using assms(5,6) by simp
  show ?thesis
    by (simp add: ZINB_loglikelihood_def Let_def tf_where_def z2 n2 del: tf_log.simps)
qed

theorem ZINB_branches_witness:
  "(0::real) \<le> 0 \<and> (0::real) \<le> 1 \<and> (0::real) < 1 \<and> (0::real) \<le> 1 / 2 \<and> (1 / 2::real) \<le> 1
   \<and> (0::real) < 1 / 10 ^ 10 \<and> (0::real) < 1 / 10 ^ 8 \<and> \<not> (1::real) < 1 / 10 ^ 8
   \<and> ZINB_loglikelihood True 0 (1, 1, 1 / 2) (1 / 10 ^ 10)
        = Fin (ln (1 / 10 ^ 10 + 1 / 2 + (1 - 1 / 2) * (1 / (1 + 1 + 1 / 10 ^ 10)) powr 1))
   \<and> ZINB_loglikelihood True 1 (1, 1, 1 / 2) (1 / 10 ^ 10)
        = f_add (Fin (ln (1 - 1 / 2 + 1 / 10 ^ 10)))
            (NB_loglikelihood True 1 (1, 1) (1 / 10 ^ 10))"
proof -
  have h: "(0::real) \<le> 0" "(0::real) \<le> 1" "(0::real) < 1" "(0::real) \<le> 1 / 2"
    "(1 / 2::real) \<le> 1" "(0::real) < 1 / 10 ^ 10"
    by simp_all
  have t: "(0::real) < 1 / 10 ^ 8" "\<not> (1::real) < 1 / 10 ^ 8"
    by simp_all
  have z: "ZINB_loglikelihood True 0 (1, 1, 1 / 2) (1 / 10 ^ 10)
          = Fin (ln (1 / 10 ^ 10 + 1 / 2 + (1 - 1 / 2) * (1 / (1 + 1 + 1 / 10 ^ 10)) powr 1))"
    using ZINB_branches [OF h(1) h(2) h(3) h(4) h(5) h(6)] t(1) by blast
  have n: "ZINB_loglikelihood True 1 (1, 1, 1 / 2) (1 / 10 ^ 10)
          = f_add (Fin (ln (1 - 1 / 2 + 1 / 10 ^ 10))) (NB_loglikelihood True 1 (1, 1) (1 / 10 ^ 10))"
    using ZINB_branches [OF h(2) h(2) h(3) h(4) h(5) h(6)] t(2) by blast
  show ?thesis
    using h t z n by blast
qed

text \<open>
  The claim C6 as worded fails at \<open>pi = 1\<close>, \<open>y = 1\<close> (with \<open>mu = r = 1\<close>,
  \<open>eps = 1e-10\<close>): the code returns \<open>log(1e-10)\<close> plus the NB log-likelihood, a finite
  number, whereas \<open>log(1 - pi)\<close> plus the NB log-likelihood is \<open>-Inf\<close>.
\<close>

theorem ZINB_nonzero_floor_counterexample:
  "ZINB_loglikelihood True 1 (1, 1, 1) (1 / 10 ^ 10)
     = f_add (Fin (ln (1 / 10 ^ 10))) (NB_loglikelihood True 1 (1, 1) (1 / 10 ^ 10))
   \<and> f_add (tf_log (Fin (1 - 1))) (NB_loglikelihood True 1 (1, 1) (1 / 10 ^ 10)) = NInf
   \<and> ZINB_loglikelihood True 1 (1, 1, 1) (1 / 10 ^ 10) \<noteq> NInf"
proof -
  have nb: "NB_loglikelihood True 1 (1, 1) (1 / 10 ^ 10) =
          Fin (log_gamma (1 + 1 + 1 / 10 ^ 10) - log_gamma (1 + 1 / 10 ^ 10) - log_gamma (1 + 1)
                + (1 * ln ((1 + 1 / 10 ^ 10) / (1 + 1 + 1 / 10 ^ 10))
                   + 1 * ln ((1 + 1 / 10 ^ 10) / (1 + 1 + 1 / 10 ^ 10))))"
    by (rule NB_finite) simp_all
  have z: "ZINB_loglikelihood True 1 (1, 1, 1) (1 / 10 ^ 10)
     = f_add (Fin (ln (1 / 10 ^ 10))) (NB_loglikelihood True 1 (1, 1) (1 / 10 ^ 10))"
    by (simp add: ZINB_loglikelihood_def Let_def tf_where_def)
  obtain v where v: "NB_loglikelihood True 1 (1, 1) (1 / 10 ^ 10) = Fin v"
    using nb by blast
  have l: "tf_log (Fin (1 - 1)) = NInf"
    by simp
  show ?thesis
    unfolding z l v by simp
qed

text \<open>
  The branch for TensorFlow 1 computes the same two cases without any \<open>eps\<close> in their
  logarithms.
\<close>

lemma ZINB_legacy_branches:
  assumes "0 \<le> y" and "0 \<le> mu" and "0 < r" and "0 \<le> pi'" and "pi' \<le> 1"
  shows "(y < 1 / 10 ^ 8 \<longrightarrow>
            ZINB_loglikelihood False y (mu, r, pi') eps
              = Fin (ln (pi' + (1 - pi') * (r / (r + mu)) powr r)))
       \<and> (\<not> y < 1 / 10 ^ 8 \<longrightarrow>
            ZINB_loglikelihood False y (mu, r, pi') eps
              = f_add (if pi' < 1 then Fin (ln (1 - pi')) else NInf)
                  (NB_loglikelihood False y (mu, r) eps))"
proof -
  have z1: "tf_log (f_add (Fin pi') (f_mul (Fin (1 - pi')) (tf_pow (tf_div r (r + mu)) r)))
          = Fin (ln (pi' + (1 - pi') * (r / (r + mu)) powr r))"
    using case_zero_legacy [of mu r pi'] assms by simp
  have n1: "tf_log (Fin (1 - pi')) = (if pi' < 1 then Fin (ln (1 - pi')) else NInf)"
    using assms(5) by simp
  show ?thesis
    by (simp add: ZINB_loglikelihood_def Let_def tf_where_def z1 n1 del: tf_log.simps)
qed

lemma ZINB_tf2_finite:
  assumes "0 \<le> y" and "0 \<le> mu" and "0 \<le> r" and "0 \<le> pi'" and "pi' \<le> 1" and "0 < eps"
  shows "\<exists>v. ZINB_loglikelihood True y (mu, r, pi') eps = Fin v"
proof -
  have n2: "tf_log (Fin (1 - pi' + eps)) = Fin (ln (1 - pi' + eps))"
    using assms(5,6) by simp
  show ?thesis
    by (simp add: ZINB_loglikelihood_def Let_def tf_where_def n2
        case_zero_tf2 [OF assms(2-6)] NB_finite [OF assms(1-3,6)] del: tf_log.simps)
qed

text \<open>
  C3 fails in the code: \<open>NB_loglikelihood\<close> and the branch of \<open>ZINB_loglikelihood\<close> for
  TensorFlow 2 floor every logarithm by \<open>eps\<close> and are finite on the inputs of the claim
  (\<open>NB_finite\<close>, \<open>ZINB_tf2_finite\<close>), but the branch for TensorFlow 1 computes
  \<open>log(1 - pi)\<close> without the floor. At \<open>y = 1\<close>, \<open>mu = 1\<close>, \<open>r = 1\<close>, \<open>pi = 1\<close>,
  \<open>eps = 1e-10\<close> it returns \<open>-Inf\<close>.
\<close>

theorem ZINB_legacy_not_finite:
  "ZINB_loglikelihood False 1 (1, 1, 1) (1 / 10 ^ 10) = NInf"
proof -
  have "NB_loglikelihood False 1 (1, 1) (1 / 10 ^ 10) =
          Fin (log_gamma (1 + 1 + 1 / 10 ^ 10) - log_gamma (1 + 1 / 10 ^ 10) - log_gamma (1 + 1)
                + (1 * ln ((1 + 1 / 10 ^ 10) / (1 + 1 + 1 / 10 ^ 10))
                   + 1 * ln ((1 + 1 / 10 ^ 10) / (1 + 1 + 1 / 10 ^ 10))))"
    by (rule NB_finite) simp_all
  then show ?thesis
    by (simp add: ZINB_loglikelihood_def Let_def tf_where_def)
qed

lemma ZINB_tensor_entry:
  "i < length y \<Longrightarrow> j < length (y ! i) \<Longrightarrow>
     ZINB_loglikelihood_tensor tf2_flag y (mu, r, pi') eps ! i ! j
       = ZINB_loglikelihood tf2_flag (y ! i ! j) (mu ! i ! j, r ! i ! j, pi' ! i ! j) eps"
  by (simp add: ZINB_loglikelihood_tensor_def)

end
